theory Spec2Isabelle
  imports Main
begin

section \<open>Python values and exceptions\<close>

text \<open>
  Exceptions are values. Only subclasses of Python's \<open>Exception\<close> are modelled: they are
  the ones an \<open>except Exception\<close> clause catches.
\<close>

datatype exn =
    InvalidId
  | KeyError string
  | TypeError string
  | AttributeError string
  | ValueError string
  | RuntimeError string
  | SMTPException string
  | DatabaseError string
  | HTTPException nat string

text \<open>A value stored under a key of a document or of a dict: a string or \<open>None\<close>.\<close>

datatype pyval = PyNone | PyStr string

fun py_str :: "pyval \<Rightarrow> string" where
  "py_str PyNone = ''None''"
| "py_str (PyStr s) = s"

text \<open>
  A dict keeps its keys in insertion order; storing under a key that is present keeps the
  key's position.
\<close>

type_synonym 'v pydict = "(string \<times> 'v) list"

fun dict_set :: "string \<Rightarrow> 'v \<Rightarrow> 'v pydict \<Rightarrow> 'v pydict" where
  "dict_set k v [] = [(k, v)]"
| "dict_set k v (p # ps) = (if fst p = k then (k, v) # ps else p # dict_set k v ps)"

fun dict_update :: "'v pydict \<Rightarrow> 'v pydict \<Rightarrow> 'v pydict" where
  "dict_update d [] = d"
| "dict_update d ((k, v) # kvs) = dict_update (dict_set k v d) kvs"

definition dict_get :: "'v pydict \<Rightarrow> string \<Rightarrow> 'v option" where
  "dict_get d k = map_of d k"

section \<open>Template rendering (backend/services/template\_service.py)\<close>

subsection \<open>The pattern of \<open>string.Template\<close>\<close>

text \<open>
  \<open>TemplateService.render_template\<close> calls \<open>Template(content).safe_substitute(variables)\<close>
  of Python's standard library. The library compiles, with \<open>IGNORECASE\<close>, the pattern
  \<^verbatim>\<open>\$(?:(?P<escaped>\$) | (?P<named>(?a:[_a-z][_a-z0-9]*)) | {(?P<braced>(?a:[_a-z][_a-z0-9]*))} | (?P<invalid>))\<close>
  and \<open>safe_substitute\<close> is \<open>pattern.sub(convert, template)\<close>.
\<close>

definition is_id_start :: "char \<Rightarrow> bool" where
  "is_id_start c \<longleftrightarrow>
     c \<in> set ''_abcdefghijklmnopqrstuvwxyzABCDEFGHIJKLMNOPQRSTUVWXYZ''"

definition is_id_char :: "char \<Rightarrow> bool" where
  "is_id_char c \<longleftrightarrow> is_id_start c \<or> c \<in> set ''0123456789''"

text \<open>The match object: which of the four named groups took part in the match.\<close>

datatype match = Escaped | Named string | Braced string | Invalid

text \<open>\<open>mo.group()\<close>: the whole matched text.\<close>

fun match_group :: "match \<Rightarrow> string" where
  "match_group Escaped = ''$$''"
| "match_group (Named n) = CHR ''$'' # n"
| "match_group (Braced n) = ''${'' @ n @ ''}''"
| "match_group Invalid = ''$''"

text \<open>
  The braced alternative after \<open>${\<close>: an identifier, matched greedily, then \<open>}\<close>. Giving
  characters of the identifier back never helps, since the next character is then an
  identifier character and not \<open>}\<close>.
\<close>

definition match_braced :: "string \<Rightarrow> (string \<times> string) option" where
  "match_braced s =
     (let n = takeWhile is_id_char s; r = dropWhile is_id_char s
      in case n of
           [] \<Rightarrow> None
         | c # _ \<Rightarrow>
             if is_id_start c then
               (case r of
                  [] \<Rightarrow> None
                | d # r' \<Rightarrow> if d = CHR ''}'' then Some (n, r') else None)
             else None)"

text \<open>
  The pattern tried right after a delimiter \<open>$\<close>: the alternatives in their order. The
  result is the match and the text left after it; the last alternative matches the empty
  string, so there is always a match.
\<close>

definition match_after_delimiter :: "string \<Rightarrow> match \<times> string" where
  "match_after_delimiter s =
     (case s of
        [] \<Rightarrow> (Invalid, [])
      | c # cs \<Rightarrow>
          if c = CHR ''$'' then (Escaped, cs)
          else if is_id_start c then
            (Named (takeWhile is_id_char s), dropWhile is_id_char s)
          else if c = CHR ''{'' then
            (case match_braced cs of
               Some (n, r) \<Rightarrow> (Braced n, r)
             | None \<Rightarrow> (Invalid, s))
          else (Invalid, s))"

lemma match_braced_length:
  "match_braced s = Some (n, r) \<Longrightarrow> length r < length s"
proof -
  assume a: "match_braced s = Some (n, r)"
  have "length (dropWhile is_id_char s) \<le> length s"
    by (rule length_dropWhile_le)
  with a show ?thesis
    by (auto simp: match_braced_def Let_def split: list.splits if_splits)
qed

lemma match_after_delimiter_length:
  "match_after_delimiter s = (m, r) \<Longrightarrow> length r \<le> length s"
proof -
  assume a: "match_after_delimiter s = (m, r)"
  have d: "length (dropWhile is_id_char s) \<le> length s"
    by (rule length_dropWhile_le)
  show ?thesis
  proof (cases s)
    case Nil
    with a show ?thesis by (simp add: match_after_delimiter_def)
  next
    case (Cons c cs)
    with a d show ?thesis
      by (auto simp: match_after_delimiter_def
               split: if_splits option.splits dest: match_braced_length)
  qed
qed

text \<open>
  \<open>pattern.sub(f, template)\<close>: the text is scanned from the left; every match is replaced
  by \<open>f\<close> of its match object and the scan goes on behind the match; the rest is copied.
\<close>

function sub :: "(match \<Rightarrow> string) \<Rightarrow> string \<Rightarrow> string" where
  "sub f [] = []"
| "sub f (c # cs) =
     (if c = CHR ''$'' then
        (case match_after_delimiter cs of (m, r) \<Rightarrow> f m @ sub f r)
      else c # sub f cs)"
  by pat_completeness auto
termination
  by (relation "measure (\<lambda>(f, s). length s)")
     (auto simp: less_Suc_eq_le dest: match_after_delimiter_length [OF sym])

text \<open>
  The helper \<open>convert\<close> of \<open>safe_substitute\<close>: a named or braced identifier is looked up in
  the mapping and its value printed with \<open>str\<close>; a \<open>KeyError\<close> gives the matched text back.
\<close>

fun convert :: "pyval pydict \<Rightarrow> match \<Rightarrow> string" where
  "convert mapping (Named n) =
     (case dict_get mapping n of Some v \<Rightarrow> py_str v | None \<Rightarrow> match_group (Named n))"
| "convert mapping (Braced n) =
     (case dict_get mapping n of Some v \<Rightarrow> py_str v | None \<Rightarrow> match_group (Braced n))"
| "convert mapping Escaped = ''$''"
| "convert mapping Invalid = match_group Invalid"

definition safe_substitute :: "string \<Rightarrow> pyval pydict \<Rightarrow> string" where
  "safe_substitute template mapping = sub (convert mapping) template"

text \<open>
  \<open>render_template\<close> wraps the call in \<open>try\<close>; \<open>safe_substitute\<close> has no raising branch, so
  the \<open>except\<close> clause (which would raise \<open>ValueError\<close>) is never entered.
\<close>

definition render_template :: "string \<Rightarrow> pyval pydict \<Rightarrow> exn + string" where
  "render_template template_content variables =
     Inr (safe_substitute template_content variables)"


text \<open>
  \<open>extract_placeholders\<close>: \<open>re.findall\<close> with the pattern
  \<^verbatim>\<open>\$\{?([a-zA-Z_][a-zA-Z0-9_]*)\}?\<close>, then \<open>list(set(...))\<close>. The function below matches the
  pattern at the start of a text and returns the captured name and the text behind the
  match. An opening brace that is taken and not followed by a name cannot be given back
  with success, since the brace is no first character of a name.
\<close>

definition match_name :: "string \<Rightarrow> (string \<times> string) option" where
  "match_name s =
     (case s of
        [] \<Rightarrow> None
      | e # _ \<Rightarrow>
          if is_id_start e then
            (let n = takeWhile is_id_char s; r = dropWhile is_id_char s
             in case r of
                  [] \<Rightarrow> Some (n, r)
                | x # r' \<Rightarrow> if x = CHR ''}'' then Some (n, r') else Some (n, r))
          else None)"

definition match_placeholder :: "string \<Rightarrow> (string \<times> string) option" where
  "match_placeholder s =
     (case s of
        [] \<Rightarrow> None
      | c # cs \<Rightarrow>
          if c = CHR ''$'' then
            match_name (case cs of
                          [] \<Rightarrow> cs
                        | d # ds \<Rightarrow> if d = CHR ''{'' then ds else cs)
          else None)"

lemma match_name_length:
  "match_name s = Some (n, r) \<Longrightarrow> length r \<le> length s"
proof -
  assume a: "match_name s = Some (n, r)"
  have "length (dropWhile is_id_char s) \<le> length s"
    by (rule length_dropWhile_le)
  moreover from a
  have "dropWhile is_id_char s = r \<or> dropWhile is_id_char s = CHR ''}'' # r"
    unfolding match_name_def Let_def
    by (cases "dropWhile is_id_char s") (auto split: list.splits if_splits)
  then have "length r \<le> length (dropWhile is_id_char s)"
    by auto
  ultimately show ?thesis by simp
qed

lemma match_placeholder_length:
  "match_placeholder s = Some (n, r) \<Longrightarrow> length r < length s"
proof -
  assume a: "match_placeholder s = Some (n, r)"
  then obtain cs where s: "s = CHR ''$'' # cs"
    by (auto simp: match_placeholder_def split: list.splits if_splits)
  show ?thesis
  proof (cases cs)
    case Nil
    with a s show ?thesis by (simp add: match_placeholder_def match_name_def)
  next
    case (Cons d ds)
    with a s show ?thesis
      by (auto simp: match_placeholder_def split: if_splits dest: match_name_length)
  qed
qed

function findall :: "string \<Rightarrow> string list" where
  "findall [] = []"
| "findall (c # cs) =
     (case match_placeholder (c # cs) of
        Some (n, r) \<Rightarrow> n # findall r
      | None \<Rightarrow> findall cs)"
  by pat_completeness auto
termination
  by (relation "measure length")
     (auto dest!: match_placeholder_length)

text \<open>
  The order in which Python lists a set is not specified; the model lists every name once,
  in the order of the last occurrences.
\<close>

definition extract_placeholders :: "string \<Rightarrow> string list" where
  "extract_placeholders template_content = remdups (findall template_content)"

section \<open>The store, the clock and the network\<close>

type_synonym datetime = nat

datatype CampaignStatus = DRAFT | SCHEDULED | IN_PROGRESS | COMPLETED | FAILED | PAUSED

fun CampaignStatus_value :: "CampaignStatus \<Rightarrow> string" where
  "CampaignStatus_value DRAFT = ''draft''"
| "CampaignStatus_value SCHEDULED = ''scheduled''"
| "CampaignStatus_value IN_PROGRESS = ''in_progress''"
| "CampaignStatus_value COMPLETED = ''completed''"
| "CampaignStatus_value FAILED = ''failed''"
| "CampaignStatus_value PAUSED = ''paused''"

text \<open>\<open>EmailStatus\<close>; its member \<open>FAILED\<close> is written \<open>EMAIL_FAILED\<close> here.\<close>

datatype EmailStatus = PENDING | SENT | EMAIL_FAILED | BOUNCED

text \<open>
  The documents of the four collections (backend/models.py). A key that a document may
  lack is an option: \<open>None\<close> is the absent key.
\<close>

record contact =
  email :: "string option"
  first_name :: "pyval option"
  last_name :: "pyval option"
  custom_fields :: "string pydict"
  tags :: "string list"
  active :: bool

record template =
  t_name :: string
  subject :: string
  content :: string
  t_description :: "string option"
  placeholders :: "string list"
  use_llm :: bool
  t_created_at :: datetime
  t_updated_at :: datetime

record campaign =
  name :: string
  template_id :: string
  contact_ids :: "string list"
  description :: "string option"
  scheduled_at :: "datetime option"
  status :: CampaignStatus
  created_at :: datetime
  updated_at :: datetime
  started_at :: "datetime option"
  completed_at :: "datetime option"
  total_emails :: int
  sent_count :: int
  failed_count :: int

record email_log =
  log_campaign_id :: string
  log_contact_id :: string
  log_template_id :: "string option"
  log_subject :: string
  log_body :: string
  log_status :: EmailStatus
  sent_at :: "datetime option"
  error_message :: "string option"
  log_created_at :: datetime

text \<open>What is handed to the SMTP server, and the calls made on the connection.\<close>

record smtp_message =
  msg_subject :: string
  msg_from :: string
  msg_to :: string
  msg_body :: string
  msg_html :: bool

datatype smtp_event =
    Connect string nat
  | StartTLS
  | Login string string
  | SendMessage smtp_message

text \<open>
  The state the code works on: the collections, keyed by the 24 hexadecimal digits of the
  document's \<open>_id\<close>; the clock read by \<open>datetime.utcnow()\<close>; and the trace of the network
  calls made to the SMTP server.
\<close>

record world =
  campaigns :: "string \<rightharpoonup> campaign"
  templates :: "string \<rightharpoonup> template"
  contacts :: "string \<rightharpoonup> contact"
  email_logs :: "email_log list"
  clock :: datetime
  smtp_trace :: "smtp_event list"

text \<open>Every reading of the clock is later than the one before.\<close>

definition utcnow :: "world \<Rightarrow> datetime \<times> world" where
  "utcnow w = (clock w, w\<lparr>clock := Suc (clock w)\<rparr>)"

text \<open>The settings of backend/config.py that the sender reads.\<close>

record settings =
  smtp_host :: string
  smtp_port :: nat
  smtp_username :: string
  smtp_password :: string
  smtp_use_tls :: bool
  smtp_from_email :: "string option"

text \<open>
  The collaborators outside the repository, as parameters: each call on the SMTP
  connection either returns (\<open>None\<close>) or raises an exception with the given text; the chat
  call of the text generator returns the content (\<open>Inr\<close>) or raises (\<open>Inl\<close>);
  \<open>email_logs.insert_one\<close> may raise. Each may depend on everything that happened before.
  The reads and updates of the other collections are taken to succeed.
\<close>

record env =
  settings :: settings
  smtp_connect :: "world \<Rightarrow> string \<Rightarrow> nat \<Rightarrow> string option"
  smtp_starttls :: "world \<Rightarrow> string option"
  smtp_login :: "world \<Rightarrow> string \<Rightarrow> string \<Rightarrow> string option"
  smtp_send_message :: "world \<Rightarrow> smtp_message \<Rightarrow> string option"
  ollama_chat :: "world \<Rightarrow> string \<Rightarrow> string \<Rightarrow> string + string"
  insert_log_fails :: "world \<Rightarrow> email_log \<Rightarrow> string option"

text \<open>
  \<open>str(e)\<close> of an exception. The texts of the exceptions of the SMTP calls are the ones
  that \<open>send_email\<close> returns; the others reach the application log only.
\<close>

fun exn_str :: "exn \<Rightarrow> string" where
  "exn_str InvalidId = ''invalid ObjectId''"
| "exn_str (KeyError k) = [CHR 0x27] @ k @ [CHR 0x27]"
| "exn_str (TypeError m) = m"
| "exn_str (AttributeError m) = m"
| "exn_str (ValueError m) = m"
| "exn_str (RuntimeError m) = m"
| "exn_str (SMTPException m) = m"
| "exn_str (DatabaseError m) = m"
| "exn_str (HTTPException c m) = m"

text \<open>
  \<open>ObjectId(s)\<close> of the bson library: a string of 24 hexadecimal digits is accepted, any
  other string raises \<open>InvalidId\<close>. Two strings that differ in the case of a digit are the
  same id, so the id is kept in lower case.
\<close>

definition is_hex_digit :: "char \<Rightarrow> bool" where
  "is_hex_digit c \<longleftrightarrow> c \<in> set ''0123456789abcdefABCDEF''"

definition hex_lower :: "char \<Rightarrow> char" where
  "hex_lower c =
     (if c = CHR ''A'' then CHR ''a'' else if c = CHR ''B'' then CHR ''b''
      else if c = CHR ''C'' then CHR ''c'' else if c = CHR ''D'' then CHR ''d''
      else if c = CHR ''E'' then CHR ''e'' else if c = CHR ''F'' then CHR ''f'' else c)"

definition ObjectId :: "string \<Rightarrow> exn + string" where
  "ObjectId s =
     (if length s = 24 \<and> list_all is_hex_digit s then Inr (map hex_lower s)
      else Inl InvalidId)"


section \<open>Sending one message (backend/services/email\_sender.py)\<close>

text \<open>\<open>AsyncEmailSender\<close>: the fields set by \<open>__init__\<close>.\<close>

record sender =
  host :: string
  port :: nat
  username :: string
  password :: string
  use_tls :: bool
  from_email :: string

text \<open>
  \<open>AsyncEmailSender()\<close> without arguments: every field comes from the settings, and
  \<open>from_email\<close> is \<open>settings.smtp_from_email or self.username\<close>.
\<close>

definition AsyncEmailSender :: "settings \<Rightarrow> sender" where
  "AsyncEmailSender st =
     \<lparr>host = smtp_host st, port = smtp_port st, username = smtp_username st,
      password = smtp_password st, use_tls = smtp_use_tls st,
      from_email = (case smtp_from_email st of
                      None \<Rightarrow> smtp_username st
                    | Some a \<Rightarrow> if a = [] then smtp_username st else a)\<rparr>"

text \<open>One call on the SMTP connection: it goes over the network, and it may raise.\<close>

definition smtp_call :: "smtp_event \<Rightarrow> string option \<Rightarrow> world \<Rightarrow> (exn + unit) \<times> world" where
  "smtp_call ev outcome w =
     ((case outcome of None \<Rightarrow> Inr () | Some m \<Rightarrow> Inl (SMTPException m)),
      w\<lparr>smtp_trace := smtp_trace w @ [ev]\<rparr>)"

text \<open>
  The \<open>with smtplib.SMTP(...) as server\<close> block of \<open>send_email\<close>: connect, \<open>starttls\<close> if
  \<open>use_tls\<close>, \<open>login\<close>, \<open>send_message\<close>. The first call that raises ends the block.
\<close>

definition smtp_session :: "env \<Rightarrow> sender \<Rightarrow> smtp_message \<Rightarrow> world \<Rightarrow> (exn + unit) \<times> world" where
  "smtp_session env self msg w =
     (case smtp_call (Connect (host self) (port self))
             (smtp_connect env w (host self) (port self)) w of
        (Inl e, w1) \<Rightarrow> (Inl e, w1)
      | (Inr _, w1) \<Rightarrow>
          (case (if use_tls self then smtp_call StartTLS (smtp_starttls env w1) w1
                 else (Inr (), w1)) of
             (Inl e, w2) \<Rightarrow> (Inl e, w2)
           | (Inr _, w2) \<Rightarrow>
               (case smtp_call (Login (username self) (password self))
                       (smtp_login env w2 (username self) (password self)) w2 of
                  (Inl e, w3) \<Rightarrow> (Inl e, w3)
                | (Inr _, w3) \<Rightarrow>
                    smtp_call (SendMessage msg) (smtp_send_message env w3 msg) w3)))"

text \<open>
  \<open>db.email_logs.insert_one(row)\<close>: the row is appended, or the call raises and the
  collection stays as it is.
\<close>

definition insert_log :: "env \<Rightarrow> email_log \<Rightarrow> world \<Rightarrow> (exn + unit) \<times> world" where
  "insert_log env row w =
     (case insert_log_fails env w row of
        Some m \<Rightarrow> (Inl (DatabaseError m), w)
      | None \<Rightarrow> (Inr (), w\<lparr>email_logs := email_logs w @ [row]\<rparr>))"

text \<open>
  \<open>AsyncEmailSender._log_email\<close>: the row is built (the clock is read for \<open>sent_at\<close> only
  when the status is \<open>SENT\<close>, then for \<open>created_at\<close>) and inserted; an exception of the
  insert is caught and logged.
\<close>

definition log_email ::
  "env \<Rightarrow> string \<Rightarrow> string \<Rightarrow> string option \<Rightarrow> string \<Rightarrow> string \<Rightarrow> EmailStatus \<Rightarrow>
   string option \<Rightarrow> world \<Rightarrow> (exn + unit) \<times> world" where
  "log_email env campaign_id contact_id tmpl_id subj body st err w =
     (case (if st = SENT then (case utcnow w of (t, w') \<Rightarrow> (Some t, w')) else (None, w)) of
        (sent, w1) \<Rightarrow>
          (case utcnow w1 of
             (created, w2) \<Rightarrow>
               (case insert_log env
                       \<lparr>log_campaign_id = campaign_id, log_contact_id = contact_id,
                        log_template_id = tmpl_id, log_subject = subj, log_body = body,
                        log_status = st, sent_at = sent, error_message = err,
                        log_created_at = created\<rparr> w2 of
                  (Inl e, w3) \<Rightarrow> (Inr (), w3)
                | (Inr u, w3) \<Rightarrow> (Inr (), w3))))"

text \<open>
  The test \<open>log_to_db and campaign_id and contact_id\<close>: both ids must be given and not
  empty.
\<close>

definition log_wanted :: "bool \<Rightarrow> string option \<Rightarrow> string option \<Rightarrow> (string \<times> string) option" where
  "log_wanted log_to_db campaign_id contact_id =
     (if log_to_db then
        (case campaign_id of
           None \<Rightarrow> None
         | Some c \<Rightarrow>
             if c = [] then None
             else (case contact_id of
                     None \<Rightarrow> None
                   | Some k \<Rightarrow> if k = [] then None else Some (c, k)))
      else None)"

text \<open>
  \<open>AsyncEmailSender.send_email\<close>. The \<open>try\<close> block builds the message, runs the SMTP
  session and logs the success; any exception raised in it is caught by \<open>except Exception\<close>,
  whose handler logs the failure and returns \<open>(False, str(e))\<close>. An exception raised inside
  the handler would leave the function.
\<close>

definition send_email_try ::
  "env \<Rightarrow> sender \<Rightarrow> string \<Rightarrow> string \<Rightarrow> string \<Rightarrow> bool \<Rightarrow> bool \<Rightarrow> string option \<Rightarrow>
   string option \<Rightarrow> string option \<Rightarrow> world \<Rightarrow> (exn + bool \<times> string option) \<times> world" where
  "send_email_try env self to_email subj body html log_to_db campaign_id contact_id
       tmpl_id w =
     (case smtp_session env self
             \<lparr>msg_subject = subj, msg_from = from_email self, msg_to = to_email,
              msg_body = body, msg_html = html\<rparr> w of
        (Inl e, w1) \<Rightarrow> (Inl e, w1)
      | (Inr _, w1) \<Rightarrow>
          (case log_wanted log_to_db campaign_id contact_id of
             None \<Rightarrow> (Inr (True, None), w1)
           | Some (c, k) \<Rightarrow>
               (case log_email env c k tmpl_id subj body SENT None w1 of
                  (Inl e, w2) \<Rightarrow> (Inl e, w2)
                | (Inr _, w2) \<Rightarrow> (Inr (True, None), w2))))"

definition send_email ::
  "env \<Rightarrow> sender \<Rightarrow> string \<Rightarrow> string \<Rightarrow> string \<Rightarrow> bool \<Rightarrow> bool \<Rightarrow> string option \<Rightarrow>
   string option \<Rightarrow> string option \<Rightarrow> world \<Rightarrow> (exn + bool \<times> string option) \<times> world" where
  "send_email env self to_email subj body html log_to_db campaign_id contact_id
       tmpl_id w =
     (case send_email_try env self to_email subj body html log_to_db campaign_id
             contact_id tmpl_id w of
        (Inr res, w1) \<Rightarrow> (Inr res, w1)
      | (Inl e, w1) \<Rightarrow>
          (case log_wanted log_to_db campaign_id contact_id of
             None \<Rightarrow> (Inr (False, Some (exn_str e)), w1)
           | Some (c, k) \<Rightarrow>
               (case log_email env c k tmpl_id subj body EMAIL_FAILED
                       (Some (exn_str e)) w1 of
                  (Inl e', w2) \<Rightarrow> (Inl e', w2)
                | (Inr _, w2) \<Rightarrow> (Inr (False, Some (exn_str e)), w2))))"

text \<open>
  \<open>DryRunEmailSender.send_email\<close>: nothing goes over the network; the row is built with
  the body cut to its first 500 characters and inserted, an exception of the insert is
  caught, and the result is \<open>(True, None)\<close>.
\<close>

definition dry_run_send_email ::
  "env \<Rightarrow> string \<Rightarrow> string \<Rightarrow> string \<Rightarrow> bool \<Rightarrow> bool \<Rightarrow> string option \<Rightarrow>
   string option \<Rightarrow> string option \<Rightarrow> world \<Rightarrow> (exn + bool \<times> string option) \<times> world" where
  "dry_run_send_email env to_email subj body html log_to_db campaign_id contact_id
       tmpl_id w =
     (case log_wanted log_to_db campaign_id contact_id of
        None \<Rightarrow> (Inr (True, None), w)
      | Some (c, k) \<Rightarrow>
          (case utcnow w of
             (sent, w1) \<Rightarrow>
               (case utcnow w1 of
                  (created, w2) \<Rightarrow>
                    (case insert_log env
                            \<lparr>log_campaign_id = c, log_contact_id = k,
                             log_template_id = tmpl_id, log_subject = subj,
                             log_body = take 500 body, log_status = SENT,
                             sent_at = Some sent, error_message = None,
                             log_created_at = created\<rparr> w2 of
                       (Inl e, w3) \<Rightarrow> (Inr (True, None), w3)
                     | (Inr u, w3) \<Rightarrow> (Inr (True, None), w3)))))"

section \<open>Personalisation (backend/services/ollama\_service.py)\<close>

definition newline :: string where
  "newline = [CHR 0x0A]"

fun join :: "string \<Rightarrow> string list \<Rightarrow> string" where
  "join sep [] = []"
| "join sep [x] = x"
| "join sep (x # y # ys) = x @ sep @ join sep (y # ys)"

definition format_recipient_data :: "pyval pydict \<Rightarrow> string" where
  "format_recipient_data d =
     join newline (map (\<lambda>(k, v). ''- '' @ k @ '': '' @ py_str v) d)"

definition default_system_prompt :: string where
  "default_system_prompt =
     ''You are an expert email writer. Generate a personalized, professional email '' @
     ''based on the template and recipient data provided. Maintain the tone and '' @
     ''structure of the template while personalizing the content. '' @
     ''Return only the email content without any additional commentary.''"

definition user_prompt :: "string \<Rightarrow> pyval pydict \<Rightarrow> string" where
  "user_prompt tmpl recipient_data =
     ''Template:'' @ newline @ tmpl @ newline @ newline @ ''Recipient Data:'' @ newline @
     format_recipient_data recipient_data @ newline @ newline @
     ''Please generate a personalized email based on the template above, '' @
     ''incorporating the recipient data naturally.''"

text \<open>
  \<open>OllamaService.generate_email\<close> with the default system prompt: the content of the chat
  response, or \<open>RuntimeError\<close> when the chat call raises.
\<close>

definition generate_email :: "env \<Rightarrow> world \<Rightarrow> string \<Rightarrow> pyval pydict \<Rightarrow> exn + string" where
  "generate_email env w tmpl recipient_data =
     (case ollama_chat env w default_system_prompt (user_prompt tmpl recipient_data) of
        Inr generated_content \<Rightarrow> Inr generated_content
      | Inl m \<Rightarrow> Inl (RuntimeError (''Failed to generate email: '' @ m)))"


section \<open>The campaign routes (backend/routes/campaigns.py)\<close>

text \<open>
  \<open>update_one({"_id": id}, {"$set": ...})\<close> on the campaigns: the fields are set in the
  document with that id; without such a document nothing changes.
\<close>

definition update_one_campaign :: "string \<Rightarrow> (campaign \<Rightarrow> campaign) \<Rightarrow> world \<Rightarrow> world" where
  "update_one_campaign cid f w =
     (case campaigns w cid of
        None \<Rightarrow> w
      | Some c \<Rightarrow> w\<lparr>campaigns := (campaigns w)(cid \<mapsto> f c)\<rparr>)"

subsection \<open>\<open>send_campaign\<close>\<close>

record send_response =
  message :: string
  resp_campaign_id :: string
  resp_dry_run :: bool

text \<open>The task handed to \<open>background_tasks.add_task\<close>.\<close>

datatype task = SendCampaignEmails string bool

text \<open>
  The route answers with an \<open>HTTPException\<close> (\<open>Inl\<close>) or with the response and the task it
  has scheduled.
\<close>

definition send_campaign ::
  "string \<Rightarrow> bool \<Rightarrow> world \<Rightarrow> (exn + send_response \<times> task) \<times> world" where
  "send_campaign campaign_id dry_run w =
     (case ObjectId campaign_id of
        Inl e \<Rightarrow> (Inl (HTTPException 400 ''Invalid campaign ID''), w)
      | Inr cid \<Rightarrow>
          (case campaigns w cid of
             None \<Rightarrow> (Inl (HTTPException 404 ''Campaign not found''), w)
           | Some c \<Rightarrow>
               if status c \<notin> set [DRAFT, PAUSED] then
                 (Inl (HTTPException 400
                        (''Cannot send campaign with status: '' @
                         CampaignStatus_value (status c))), w)
               else
                 (case utcnow w of
                    (started, w1) \<Rightarrow>
                      (case utcnow w1 of
                         (updated, w2) \<Rightarrow>
                           (Inr (\<lparr>message = ''Campaign started'',
                                  resp_campaign_id = campaign_id,
                                  resp_dry_run = dry_run\<rparr>,
                                 SendCampaignEmails campaign_id dry_run),
                            update_one_campaign cid
                              (\<lambda>d. d\<lparr>status := IN_PROGRESS, started_at := Some started,
                                      updated_at := updated\<rparr>) w2)))))"

subsection \<open>\<open>_send_campaign_emails\<close>\<close>

text \<open>
  The dict \<open>recipient_data\<close>: the three reserved keys, then the custom fields, which
  replace the value of a reserved key of the same name.
\<close>

definition recipient_data :: "string \<Rightarrow> contact \<Rightarrow> pyval pydict" where
  "recipient_data addr c =
     dict_update
       [(''email'', PyStr addr),
        (''first_name'', (case first_name c of None \<Rightarrow> PyStr [] | Some v \<Rightarrow> v)),
        (''last_name'', (case last_name c of None \<Rightarrow> PyStr [] | Some v \<Rightarrow> v))]
       (map (\<lambda>(k, v). (k, PyStr v)) (custom_fields c))"

text \<open>
  What the \<open>try\<close> block of one pass of the loop comes to: the contact is missing
  (\<open>continue\<close>), or a send was made and returned its pair; an exception leaves the block.
\<close>

datatype attempt = Missing | Attempted bool "string option"

definition try_recipient ::
  "env \<Rightarrow> bool \<Rightarrow> string \<Rightarrow> campaign \<Rightarrow> template \<Rightarrow> string \<Rightarrow> world \<Rightarrow>
   (exn + attempt) \<times> world" where
  "try_recipient env dry_run campaign_id camp tmpl contact_id w =
     (case ObjectId contact_id of
        Inl e \<Rightarrow> (Inl e, w)
      | Inr oid \<Rightarrow>
          (case contacts w oid of
             None \<Rightarrow> (Inr Missing, w)
           | Some c \<Rightarrow>
               (case email c of
                  None \<Rightarrow> (Inl (KeyError ''email''), w)
                | Some addr \<Rightarrow>
                    (case (if use_llm tmpl
                           then generate_email env w (content tmpl) (recipient_data addr c)
                           else render_template (content tmpl) (recipient_data addr c)) of
                       Inl e \<Rightarrow> (Inl e, w)
                     | Inr body \<Rightarrow>
                         (case (if dry_run
                                then dry_run_send_email env addr (subject tmpl) body False
                                       True (Some campaign_id) (Some contact_id)
                                       (Some (template_id camp)) w
                                else send_email env (AsyncEmailSender (settings env)) addr
                                       (subject tmpl) body False True (Some campaign_id)
                                       (Some contact_id) (Some (template_id camp)) w) of
                            (Inl e, w1) \<Rightarrow> (Inl e, w1)
                          | (Inr (success, error), w1) \<Rightarrow>
                              (Inr (Attempted success error), w1))))))"

text \<open>
  One pass of the loop over \<open>campaign["contact_ids"]\<close>, on the state and the two local
  counters: a missing contact and a send that reports failure count as failed, a send that
  reports success as sent, and the \<open>except Exception\<close> of the pass counts as failed.
\<close>

definition process_contact ::
  "env \<Rightarrow> bool \<Rightarrow> string \<Rightarrow> campaign \<Rightarrow> template \<Rightarrow> string \<Rightarrow> world \<times> int \<times> int \<Rightarrow>
   world \<times> int \<times> int" where
  "process_contact env dry_run campaign_id camp tmpl contact_id acc =
     (case acc of
        (w, sent, failed) \<Rightarrow>
          (case try_recipient env dry_run campaign_id camp tmpl contact_id w of
             (Inr Missing, w1) \<Rightarrow> (w1, sent, failed + 1)
           | (Inr (Attempted success error), w1) \<Rightarrow>
               if success then (w1, sent + 1, failed) else (w1, sent, failed + 1)
           | (Inl e, w1) \<Rightarrow> (w1, sent, failed + 1)))"

fun send_loop ::
  "env \<Rightarrow> bool \<Rightarrow> string \<Rightarrow> campaign \<Rightarrow> template \<Rightarrow> string list \<Rightarrow> world \<times> int \<times> int \<Rightarrow>
   world \<times> int \<times> int" where
  "send_loop env dry_run campaign_id camp tmpl [] acc = acc"
| "send_loop env dry_run campaign_id camp tmpl (contact_id # rest) acc =
     send_loop env dry_run campaign_id camp tmpl rest
       (process_contact env dry_run campaign_id camp tmpl contact_id acc)"

text \<open>
  The outer \<open>try\<close> block: the campaign and its template are read (a campaign or template
  that is not found makes the next access raise), the loop runs from counters 0 and 0, and
  one update writes the status \<open>completed\<close>, the counters and the two timestamps. The
  constructors of the two senders and of \<open>OllamaService\<close> open no connection and are taken
  to succeed; \<open>ollama_service\<close> is set exactly when the template has \<open>use_llm\<close>, and the
  sender is the dry-run one exactly when \<open>dry_run\<close> holds, which \<open>try_recipient\<close> tests in
  each pass.
\<close>

definition run_campaign :: "env \<Rightarrow> string \<Rightarrow> bool \<Rightarrow> world \<Rightarrow> (exn + unit) \<times> world" where
  "run_campaign env campaign_id dry_run w =
     (case ObjectId campaign_id of
        Inl e \<Rightarrow> (Inl e, w)
      | Inr cid \<Rightarrow>
          (case campaigns w cid of
             None \<Rightarrow> (Inl (TypeError ''NoneType object is not subscriptable''), w)
           | Some camp \<Rightarrow>
               (case ObjectId (template_id camp) of
                  Inl e \<Rightarrow> (Inl e, w)
                | Inr tid \<Rightarrow>
                    (case templates w tid of
                       None \<Rightarrow> (Inl (AttributeError ''NoneType object has no attribute get''), w)
                     | Some tmpl \<Rightarrow>
                         (case send_loop env dry_run campaign_id camp tmpl
                                 (contact_ids camp) (w, 0, 0) of
                            (w1, sent, failed) \<Rightarrow>
                              (case utcnow w1 of
                                 (completed, w2) \<Rightarrow>
                                   (case utcnow w2 of
                                      (updated, w3) \<Rightarrow>
                                        (Inr (),
                                         update_one_campaign cid
                                           (\<lambda>d. d\<lparr>status := COMPLETED, sent_count := sent,
                                                   failed_count := failed,
                                                   completed_at := Some completed,
                                                   updated_at := updated\<rparr>) w3))))))))"

text \<open>
  \<open>_send_campaign_emails\<close>: an exception of the outer block marks the campaign as failed;
  the handler builds the \<open>ObjectId\<close> again, which raises again for an invalid id.
\<close>

definition send_campaign_emails :: "env \<Rightarrow> string \<Rightarrow> bool \<Rightarrow> world \<Rightarrow> (exn + unit) \<times> world" where
  "send_campaign_emails env campaign_id dry_run w =
     (case run_campaign env campaign_id dry_run w of
        (Inr u, w1) \<Rightarrow> (Inr (), w1)
      | (Inl e, w1) \<Rightarrow>
          (case ObjectId campaign_id of
             Inl e' \<Rightarrow> (Inl e', w1)
           | Inr cid \<Rightarrow>
               (case utcnow w1 of
                  (updated, w2) \<Rightarrow>
                    (Inr (),
                     update_one_campaign cid
                       (\<lambda>d. d\<lparr>status := FAILED, updated_at := updated\<rparr>) w2))))"

section \<open>The template routes (backend/routes/templates.py)\<close>

record TemplateCreate =
  tc_name :: string
  tc_subject :: string
  tc_content :: string
  tc_description :: "string option"
  tc_placeholders :: "string list"
  tc_use_llm :: bool

text \<open>
  \<open>TemplateUpdate\<close> after \<open>model_dump(exclude_unset=True)\<close>: a field is unset (\<open>None\<close>) or
  set to a value. Only the description is modelled as settable to null.
\<close>

record TemplateUpdate =
  tu_name :: "string option"
  tu_subject :: "string option"
  tu_content :: "string option"
  tu_description :: "string option option"
  tu_placeholders :: "string list option"
  tu_use_llm :: "bool option"

text \<open>
  \<open>create_template\<close>; the \<open>_id\<close> that the driver gives to the inserted document is a
  parameter. The answer is the document read back under that id.
\<close>

definition create_template ::
  "string \<Rightarrow> TemplateCreate \<Rightarrow> world \<Rightarrow> (exn + string \<times> template) \<times> world" where
  "create_template new_id tc w =
     (case utcnow w of
        (created, w1) \<Rightarrow>
          (case utcnow w1 of
             (updated, w2) \<Rightarrow>
               (let doc = \<lparr>t_name = tc_name tc, subject = tc_subject tc,
                          content = tc_content tc, t_description = tc_description tc,
                          placeholders = extract_placeholders (tc_content tc),
                          use_llm = tc_use_llm tc, t_created_at = created,
                          t_updated_at = updated\<rparr>
                in (Inr (new_id, doc), w2\<lparr>templates := (templates w2)(new_id \<mapsto> doc)\<rparr>))))"

text \<open>
  The \<open>$set\<close> of \<open>update_template\<close>: \<open>update_data\<close> holds the fields that were set; when the
  content is among them, its placeholders replace whatever the request gave as
  placeholders.
\<close>

definition set_template_fields :: "TemplateUpdate \<Rightarrow> datetime \<Rightarrow> template \<Rightarrow> template" where
  "set_template_fields tu updated d =
     d\<lparr>t_name := (case tu_name tu of None \<Rightarrow> t_name d | Some v \<Rightarrow> v),
       subject := (case tu_subject tu of None \<Rightarrow> subject d | Some v \<Rightarrow> v),
       content := (case tu_content tu of None \<Rightarrow> content d | Some v \<Rightarrow> v),
       t_description := (case tu_description tu of None \<Rightarrow> t_description d | Some v \<Rightarrow> v),
       placeholders :=
         (case tu_content tu of
            Some v \<Rightarrow> extract_placeholders v
          | None \<Rightarrow> (case tu_placeholders tu of None \<Rightarrow> placeholders d | Some p \<Rightarrow> p)),
       use_llm := (case tu_use_llm tu of None \<Rightarrow> use_llm d | Some v \<Rightarrow> v),
       t_updated_at := updated\<rparr>"

definition update_template ::
  "string \<Rightarrow> TemplateUpdate \<Rightarrow> world \<Rightarrow> (exn + string \<times> template) \<times> world" where
  "update_template tmpl_id tu w =
     (case ObjectId tmpl_id of
        Inl e \<Rightarrow> (Inl (HTTPException 400 ''Invalid template ID''), w)
      | Inr tid \<Rightarrow>
          (case templates w tid of
             None \<Rightarrow> (Inl (HTTPException 404 ''Template not found''), w)
           | Some existing \<Rightarrow>
               (case utcnow w of
                  (updated, w1) \<Rightarrow>
                    (let doc = set_template_fields tu updated existing
                     in (Inr (tid, doc), w1\<lparr>templates := (templates w1)(tid \<mapsto> doc)\<rparr>)))))"


section \<open>Notions of the specification and of the proofs\<close>

text \<open>
  The specification's resolver (its section 4.3), written after its words: the references
  of a campaign are looked up in their order, and a reference that points to no contact is
  skipped. In the source the lookup is the first statement of each pass of the loop.
\<close>

definition find_contact :: "world \<Rightarrow> string \<Rightarrow> contact option" where
  "find_contact w ref = (case ObjectId ref of Inl e \<Rightarrow> None | Inr oid \<Rightarrow> contacts w oid)"

definition resolve :: "world \<Rightarrow> string list \<Rightarrow> contact list" where
  "resolve w refs = List.map_filter (find_contact w) refs"

text \<open>
  The specification's property of the final counters, in its words: the campaign is
  completed and its sent and failed counters add up to the number of recipients that the
  resolver yields for the references of the campaign in the state \<open>w\<close> the run started in.
\<close>

definition counters_match_resolved :: "world \<Rightarrow> world \<Rightarrow> string \<Rightarrow> bool" where
  "counters_match_resolved w w' cid =
     (case campaigns w' cid of
        None \<Rightarrow> False
      | Some c \<Rightarrow>
          status c = COMPLETED
          \<and> sent_count c + failed_count c = int (length (resolve w (contact_ids c))))"

text \<open>What a poll of the campaign record shows: status, total, sent, failed.\<close>

definition campaign_counters ::
  "world \<Rightarrow> string \<Rightarrow> (CampaignStatus \<times> int \<times> int \<times> int) option" where
  "campaign_counters w cid =
     (case campaigns w cid of
        None \<Rightarrow> None
      | Some c \<Rightarrow> Some (status c, total_emails c, sent_count c, failed_count c))"

text \<open>The stored placeholder list of a template, beside the list its body gives.\<close>

definition stored_and_derived :: "world \<Rightarrow> string \<Rightarrow> (string list \<times> string list) option" where
  "stored_and_derived w tid =
     (case templates w tid of
        None \<Rightarrow> None
      | Some d \<Rightarrow> Some (placeholders d, extract_placeholders (content d)))"

text \<open>The collections other than the log are the same in two states.\<close>

definition same_store :: "world \<Rightarrow> world \<Rightarrow> bool" where
  "same_store w w' \<longleftrightarrow>
     campaigns w' = campaigns w \<and> templates w' = templates w \<and> contacts w' = contacts w"

text \<open>
  A template as its author sees it: pieces of text without \<open>$\<close>, the escape \<open>$$\<close>, a
  lone \<open>$\<close>, and the placeholders \<open>$name\<close> and \<open>${name}\<close>. \<open>source\<close> is what is written
  in the template, \<open>rendered\<close> what the specification asks of \<open>render\<close> for the piece.
\<close>

datatype segment = Text string | Dollar | Stray | Var string | BracedVar string

fun source :: "segment \<Rightarrow> string" where
  "source (Text s) = s"
| "source Dollar = ''$$''"
| "source Stray = ''$''"
| "source (Var n) = CHR ''$'' # n"
| "source (BracedVar n) = ''${'' @ n @ ''}''"

definition unparse :: "segment list \<Rightarrow> string" where
  "unparse segs = concat (map source segs)"

fun rendered :: "pyval pydict \<Rightarrow> segment \<Rightarrow> string" where
  "rendered V (Text s) = s"
| "rendered V Dollar = ''$''"
| "rendered V Stray = ''$''"
| "rendered V (Var n) =
     (case dict_get V n of Some v \<Rightarrow> py_str v | None \<Rightarrow> source (Var n))"
| "rendered V (BracedVar n) =
     (case dict_get V n of Some v \<Rightarrow> py_str v | None \<Rightarrow> source (BracedVar n))"

definition is_identifier :: "string \<Rightarrow> bool" where
  "is_identifier n =
     (case n of [] \<Rightarrow> False | c # cs \<Rightarrow> is_id_start c \<and> list_all is_id_char cs)"

definition starts_with :: "(char \<Rightarrow> bool) \<Rightarrow> string \<Rightarrow> bool" where
  "starts_with P s = (case s of [] \<Rightarrow> False | c # _ \<Rightarrow> P c)"

text \<open>The text starts with \<open>{\<close>, an identifier and \<open>}\<close>.\<close>

definition braced_ahead :: "string \<Rightarrow> bool" where
  "braced_ahead s =
     (case s of
        [] \<Rightarrow> False
      | c # cs \<Rightarrow>
          c = CHR ''{'' \<and> is_identifier (takeWhile is_id_char cs)
          \<and> starts_with (\<lambda>d. d = CHR ''}'') (dropWhile is_id_char cs))"

text \<open>
  The pieces are what they look like: a text holds no \<open>$\<close>; a name is an identifier; the
  text behind \<open>$name\<close> does not go on with a character of a name; the text behind a lone
  \<open>$\<close> starts neither with \<open>$\<close> nor with a first character of a name nor with a braced
  identifier.
\<close>

fun well_formed :: "segment list \<Rightarrow> bool" where
  "well_formed [] = True"
| "well_formed (Text s # segs) = (CHR ''$'' \<notin> set s \<and> well_formed segs)"
| "well_formed (Dollar # segs) = well_formed segs"
| "well_formed (Stray # segs) =
     (\<not> starts_with (\<lambda>c. c = CHR ''$'' \<or> is_id_start c) (unparse segs)
      \<and> \<not> braced_ahead (unparse segs) \<and> well_formed segs)"
| "well_formed (Var n # segs) =
     (is_identifier n \<and> \<not> starts_with is_id_char (unparse segs) \<and> well_formed segs)"
| "well_formed (BracedVar n # segs) = (is_identifier n \<and> well_formed segs)"

section \<open>Example data\<close>

definition example_env :: env where
  "example_env =
     \<lparr>settings = \<lparr>smtp_host = ''smtp.gmail.com'', smtp_port = 587,
                   smtp_username = ''mailer@example.com'', smtp_password = ''secret'',
                   smtp_use_tls = True, smtp_from_email = None\<rparr>,
      smtp_connect = (\<lambda>w h p. None), smtp_starttls = (\<lambda>w. None),
      smtp_login = (\<lambda>w u p. None), smtp_send_message = (\<lambda>w m. None),
      ollama_chat = (\<lambda>w s u. Inr ''Dear Ana''), insert_log_fails = (\<lambda>w r. None)\<rparr>"

definition id_campaign :: string where "id_campaign = ''64b0f0a1c2d3e4f5a6b7c8d9''"
definition id_template :: string where "id_template = ''64b0f0a1c2d3e4f5a6b7c8da''"
definition id_ana :: string where "id_ana = ''64b0f0a1c2d3e4f5a6b7c8e1''"
definition id_deleted :: string where "id_deleted = ''64b0f0a1c2d3e4f5a6b7c8e2''"
definition id_bob :: string where "id_bob = ''64b0f0a1c2d3e4f5a6b7c8e3''"

definition example_contact :: "string \<Rightarrow> string \<Rightarrow> contact" where
  "example_contact addr fn =
     \<lparr>email = Some addr, first_name = Some (PyStr fn), last_name = Some PyNone,
      custom_fields = [], tags = [], active = True\<rparr>"

definition example_template :: "bool \<Rightarrow> template" where
  "example_template llm =
     \<lparr>t_name = ''Welcome'', subject = ''Hello'', content = ''Hi $first_name, from $company'',
      t_description = None, placeholders = [''company'', ''first_name''], use_llm = llm,
      t_created_at = 0, t_updated_at = 0\<rparr>"

text \<open>A campaign with three references, the second to a contact that was deleted.\<close>

definition example_campaign :: "CampaignStatus \<Rightarrow> int \<Rightarrow> int \<Rightarrow> campaign" where
  "example_campaign st s f =
     \<lparr>name = ''Spring'', template_id = id_template,
      contact_ids = [id_ana, id_deleted, id_bob],
      description = None, scheduled_at = None, status = st, created_at = 1, updated_at = 2,
      started_at = None, completed_at = None, total_emails = 3, sent_count = s,
      failed_count = f\<rparr>"

definition example_world :: "campaign \<Rightarrow> template \<Rightarrow> world" where
  "example_world c t =
     \<lparr>campaigns = [id_campaign \<mapsto> c], templates = [id_template \<mapsto> t],
      contacts = [id_ana \<mapsto> example_contact ''ana@example.com'' ''Ana'',
                  id_bob \<mapsto> example_contact ''bob@example.com'' ''Bob''],
      email_logs = [], clock = 10, smtp_trace = []\<rparr>"

definition long_body :: string where
  "long_body = replicate 501 (CHR ''x'')"

text \<open>An update request that sets nothing but the placeholder list.\<close>

definition placeholders_only :: TemplateUpdate where
  "placeholders_only =
     \<lparr>tu_name = None, tu_subject = None, tu_content = None, tu_description = None,
      tu_placeholders = Some [''bogus''], tu_use_llm = None\<rparr>"

section \<open>Rendering: auxiliary facts\<close>

lemma sub_text: "CHR ''$'' \<notin> set s \<Longrightarrow> sub f (s @ t) = s @ sub f t"
  by (induction s) auto

lemma identifier_all: "is_identifier n \<Longrightarrow> \<forall>c\<in>set n. is_id_char c"
  by (auto simp: is_identifier_def is_id_char_def list_all_iff split: list.splits)

lemma takeWhile_identifier:
  "is_identifier n \<Longrightarrow> \<not> starts_with is_id_char t \<Longrightarrow> takeWhile is_id_char (n @ t) = n"
  by (cases t) (auto simp: takeWhile_append2 starts_with_def dest: identifier_all)

lemma dropWhile_identifier:
  "is_identifier n \<Longrightarrow> \<not> starts_with is_id_char t \<Longrightarrow> dropWhile is_id_char (n @ t) = t"
  by (cases t) (auto simp: dropWhile_append2 starts_with_def dest: identifier_all)

lemma not_id_dollar: "\<not> is_id_char (CHR ''$'')" "\<not> is_id_start (CHR ''$'')"
  "\<not> is_id_char (CHR ''}'')" "\<not> is_id_start (CHR ''{'')"
  by (simp_all add: is_id_char_def is_id_start_def)

lemma match_named:
  "is_identifier n \<Longrightarrow> \<not> starts_with is_id_char t \<Longrightarrow>
     match_after_delimiter (n @ t) = (Named n, t)"
proof -
  assume i: "is_identifier n" and t: "\<not> starts_with is_id_char t"
  from i obtain c cs where n: "n = c # cs" and c: "is_id_start c"
    by (auto simp: is_identifier_def split: list.splits)
  from c have "c \<noteq> CHR ''$''" using not_id_dollar by auto
  with n c takeWhile_identifier [OF i t] dropWhile_identifier [OF i t]
  show ?thesis by (simp add: match_after_delimiter_def)
qed

lemma match_braced_identifier:
  "is_identifier n \<Longrightarrow> match_braced (n @ CHR ''}'' # t) = Some (n, t)"
proof -
  assume i: "is_identifier n"
  have s: "\<not> starts_with is_id_char (CHR ''}'' # t)"
    by (simp add: starts_with_def not_id_dollar)
  from i obtain c cs where n: "n = c # cs" and c: "is_id_start c"
    by (auto simp: is_identifier_def split: list.splits)
  have "takeWhile is_id_char (n @ CHR ''}'' # t) = n"
    and "dropWhile is_id_char (n @ CHR ''}'' # t) = CHR ''}'' # t"
    using takeWhile_identifier [OF i s] dropWhile_identifier [OF i s] by simp_all
  with n c show ?thesis by (simp add: match_braced_def)
qed

lemma match_braced_var:
  "is_identifier n \<Longrightarrow> match_after_delimiter (CHR ''{'' # n @ CHR ''}'' # t) = (Braced n, t)"
  by (simp add: match_after_delimiter_def match_braced_identifier not_id_dollar)

lemma is_identifier_takeWhile:
  "is_identifier (takeWhile is_id_char cs) =
     (case takeWhile is_id_char cs of [] \<Rightarrow> False | c # _ \<Rightarrow> is_id_start c)"
proof -
  have "list_all is_id_char (takeWhile is_id_char cs)"
    by (auto simp: list_all_iff dest: set_takeWhileD)
  then show ?thesis
    by (cases "takeWhile is_id_char cs") (simp_all add: is_identifier_def)
qed

lemma match_braced_None:
  assumes "\<not> braced_ahead (CHR ''{'' # cs)"
  shows "match_braced cs = None"
proof -
  define n where "n = takeWhile is_id_char cs"
  define r where "r = dropWhile is_id_char cs"
  from assms have "\<not> (is_identifier n \<and> starts_with (\<lambda>d. d = CHR ''}'') r)"
    by (simp add: braced_ahead_def n_def r_def)
  moreover have "is_identifier n = (case n of [] \<Rightarrow> False | c # _ \<Rightarrow> is_id_start c)"
    unfolding n_def by (rule is_identifier_takeWhile)
  ultimately have k:
    "(case n of
        [] \<Rightarrow> None
      | c # _ \<Rightarrow>
          if is_id_start c then
            (case r of
               [] \<Rightarrow> None
             | d # r' \<Rightarrow> if d = CHR ''}'' then Some (n, r') else None)
          else None) = None"
    by (cases n; cases r) (simp_all add: starts_with_def)
  show ?thesis
    unfolding match_braced_def Let_def n_def [symmetric] r_def [symmetric] by (rule k)
qed

lemma match_stray:
  "\<not> starts_with (\<lambda>c. c = CHR ''$'' \<or> is_id_start c) t \<Longrightarrow> \<not> braced_ahead t \<Longrightarrow>
     match_after_delimiter t = (Invalid, t)"
  by (cases t) (auto simp: match_after_delimiter_def starts_with_def match_braced_None)

lemma sub_unparse:
  "well_formed segs \<Longrightarrow> sub (convert V) (unparse segs) = concat (map (rendered V) segs)"
proof (induction segs)
  case Nil
  show ?case by (simp add: unparse_def)
next
  case (Cons seg segs)
  have u: "\<And>x. unparse (x # segs) = source x @ unparse segs"
    by (simp add: unparse_def)
  show ?case
  proof (cases seg)
    case (Text s)
    with Cons show ?thesis by (simp add: u sub_text)
  next
    case Dollar
    with Cons show ?thesis by (simp add: u match_after_delimiter_def)
  next
    case Stray
    with Cons show ?thesis by (simp add: u match_stray)
  next
    case (Var n)
    with Cons show ?thesis by (simp add: u match_named split: option.splits)
  next
    case (BracedVar n)
    with Cons show ?thesis by (simp add: u match_braced_var split: option.splits)
  qed
qed

lemma unparse_Cons: "unparse (x # segs) = source x @ unparse segs"
  by (simp add: unparse_def)

lemma not_starts_dropWhile: "\<not> starts_with P (dropWhile P s)"
  by (induction s) (auto simp: starts_with_def)

lemma segmentation_exists: "\<exists>segs. well_formed segs \<and> unparse segs = T"
proof (induction "length T" arbitrary: T rule: less_induct)
  case less
  show ?case
  proof (cases T)
    case Nil
    have "well_formed [] \<and> unparse [] = T" using Nil by (simp add: unparse_def)
    then show ?thesis by blast
  next
    case (Cons c cs)
    show ?thesis
    proof (cases "c = CHR ''$''")
      case False
      from less [of cs] Cons obtain segs where s: "well_formed segs" "unparse segs = cs"
        by auto
      with False Cons have "well_formed (Text [c] # segs) \<and> unparse (Text [c] # segs) = T"
        by (simp add: unparse_Cons)
      then show ?thesis by blast
    next
      case True
      consider (esc) r where "cs = CHR ''$'' # r"
        | (named) "starts_with is_id_start cs"
        | (braced) "braced_ahead cs"
        | (stray) "\<not> starts_with (\<lambda>c. c = CHR ''$'' \<or> is_id_start c) cs" "\<not> braced_ahead cs"
        by (cases cs) (auto simp: starts_with_def)
      then show ?thesis
      proof cases
        case esc
        from less [of r] Cons esc obtain segs where s: "well_formed segs" "unparse segs = r"
          by auto
        with True Cons esc have "well_formed (Dollar # segs) \<and> unparse (Dollar # segs) = T"
          by (simp add: unparse_Cons)
        then show ?thesis by blast
      next
        case named
        define n where "n = takeWhile is_id_char cs"
        define r where "r = dropWhile is_id_char cs"
        have nr: "n @ r = cs" by (simp add: n_def r_def)
        from named have "is_identifier n"
          unfolding n_def is_identifier_takeWhile
          by (cases cs) (auto simp: starts_with_def is_id_char_def)
        moreover have "length r < length T"
          using Cons by (simp add: r_def length_dropWhile_le less_Suc_eq_le)
        from less [OF this] obtain segs where s: "well_formed segs" "unparse segs = r"
          by auto
        moreover have "\<not> starts_with is_id_char r"
          unfolding r_def by (rule not_starts_dropWhile)
        ultimately have "well_formed (Var n # segs) \<and> unparse (Var n # segs) = T"
          using True Cons nr by (simp add: unparse_Cons)
        then show ?thesis by blast
      next
        case braced
        then obtain cs' where c': "cs = CHR ''{'' # cs'"
          by (cases cs) (auto simp: braced_ahead_def)
        define n where "n = takeWhile is_id_char cs'"
        from braced c' have i: "is_identifier n"
          by (simp add: braced_ahead_def n_def)
        from braced c' obtain r where r: "dropWhile is_id_char cs' = CHR ''}'' # r"
          by (cases "dropWhile is_id_char cs'") (auto simp: braced_ahead_def starts_with_def)
        have "n @ dropWhile is_id_char cs' = cs'" by (simp add: n_def)
        with r have e: "cs' = n @ CHR ''}'' # r" by simp
        then have "length r < length T" using Cons c' by simp
        from less [OF this] obtain segs where s: "well_formed segs" "unparse segs = r"
          by auto
        with i e c' True Cons
        have "well_formed (BracedVar n # segs) \<and> unparse (BracedVar n # segs) = T"
          by (simp add: unparse_Cons)
        then show ?thesis by blast
      next
        case stray
        from less [of cs] Cons obtain segs where s: "well_formed segs" "unparse segs = cs"
          by auto
        with stray True Cons have "well_formed (Stray # segs) \<and> unparse (Stray # segs) = T"
          by (simp add: unparse_Cons)
        then show ?thesis by blast
      qed
    qed
  qed
qed

lemma extract_example:
  "extract_placeholders ''Hi $first_name, from $company'' = [''first_name'', ''company'']"
  by (simp add: extract_placeholders_def match_placeholder_def match_name_def
        is_id_start_def is_id_char_def)

lemma create_template_placeholders:
  "stored_and_derived (snd (create_template new_id tc w)) new_id =
     Some (extract_placeholders (tc_content tc), extract_placeholders (tc_content tc))"
  by (simp add: create_template_def stored_and_derived_def utcnow_def Let_def)

lemma update_template_content_placeholders:
  assumes "ObjectId tmpl_id = Inr tid" and "templates w tid = Some d"
    and "tu_content tu = Some body"
  shows "stored_and_derived (snd (update_template tmpl_id tu w)) tid =
           Some (extract_placeholders body, extract_placeholders body)"
  using assms
  by (simp add: update_template_def set_template_fields_def stored_and_derived_def
        utcnow_def Let_def)

section \<open>Sending and the loop: auxiliary facts\<close>


lemma same_store_refl: "same_store w w"
  by (simp add: same_store_def)

lemma same_store_trans: "same_store w w1 \<Longrightarrow> same_store w1 w2 \<Longrightarrow> same_store w w2"
  by (simp add: same_store_def)

lemma smtp_session_frame:
  "\<exists>tr. snd (smtp_session env self msg w) = w\<lparr>smtp_trace := smtp_trace w @ tr\<rparr>"
proof -
  have e: "\<And>a b. w\<lparr>smtp_trace := smtp_trace w @ a @ b\<rparr> = w\<lparr>smtp_trace := smtp_trace w @ (a @ b)\<rparr>"
    by simp
  show ?thesis
    unfolding smtp_session_def smtp_call_def
    by (auto split: option.splits intro: exI [of _ "[]"] exI [of _ "[x]" for x] 
         exI [of _ "[x, y]" for x y] exI [of _ "[x, y, z]" for x y z]  exI [of _ "[x, y, z, u]" for x y z u])
qed

lemma log_email_fst: "fst (log_email env c k t s b st err w) = Inr ()"
  by (simp add: log_email_def insert_log_def utcnow_def split: option.splits prod.splits)

lemma log_email_snd:
  "snd (log_email env c k t s b st err w) =
     (let sent = (if st = SENT then Some (clock w) else None);
          created = (if st = SENT then Suc (clock w) else clock w);
          row = \<lparr>log_campaign_id = c, log_contact_id = k, log_template_id = t,
                 log_subject = s, log_body = b, log_status = st, sent_at = sent,
                 error_message = err, log_created_at = created\<rparr>;
          w2 = w\<lparr>clock := Suc created\<rparr>
      in case insert_log_fails env w2 row of
           Some m \<Rightarrow> w2
         | None \<Rightarrow> w2\<lparr>email_logs := email_logs w @ [row]\<rparr>)"
  by (simp add: log_email_def insert_log_def utcnow_def Let_def split: option.splits)


lemma log_email_not_Inl: "log_email env c k t s b st err w \<noteq> (Inl e, w')"
  using log_email_fst [of env c k t s b st err w] by (metis fst_conv sum.distinct(1))

lemma log_email_same_store:
  "log_email env c k t s b st err w = (r, w') \<Longrightarrow> same_store w w'"
  using log_email_snd [of env c k t s b st err w]
  by (auto simp: same_store_def Let_def split: option.splits)

lemma smtp_session_same_store:
  "smtp_session env self msg w = (r, w') \<Longrightarrow> same_store w w'"
  using smtp_session_frame [of env self msg w] by (auto simp: same_store_def)

lemma smtp_session_logs:
  "smtp_session env self msg w = (r, w') \<Longrightarrow> email_logs w' = email_logs w"
  using smtp_session_frame [of env self msg w] by auto

lemma send_email_try_same_store:
  "send_email_try env self a s b h l c k t w = (r, w') \<Longrightarrow> same_store w w'"
  unfolding send_email_try_def
  by (auto split: prod.splits sum.splits option.splits
           dest: smtp_session_same_store log_email_same_store intro: same_store_trans)

lemma send_email_same_store:
  "send_email env self a s b h l c k t w = (r, w') \<Longrightarrow> same_store w w'"
  unfolding send_email_def
  by (auto split: prod.splits sum.splits option.splits
           dest: send_email_try_same_store log_email_same_store intro: same_store_trans)

lemma send_email_try_fst:
  "fst (send_email_try env self a s b h l c k t w) =
     (case fst (smtp_session env self
                  \<lparr>msg_subject = s, msg_from = from_email self, msg_to = a, msg_body = b,
                   msg_html = h\<rparr> w) of
        Inl e \<Rightarrow> Inl e
      | Inr u \<Rightarrow> Inr (True, None))"
  unfolding send_email_try_def
  by (auto simp: log_email_not_Inl split: prod.splits sum.splits option.splits)

lemma send_email_fst:
  "fst (send_email env self a s b h l c k t w) =
     (case fst (smtp_session env self
                  \<lparr>msg_subject = s, msg_from = from_email self, msg_to = a, msg_body = b,
                   msg_html = h\<rparr> w) of
        Inl e \<Rightarrow> Inr (False, Some (exn_str e))
      | Inr u \<Rightarrow> Inr (True, None))"
  using send_email_try_fst [of env self a s b h l c k t w]
  unfolding send_email_def
  by (auto simp: log_email_not_Inl split: prod.splits sum.splits option.splits)

lemma dry_run_send_email_fst:
  "fst (dry_run_send_email env a s b h l c k t w) = Inr (True, None)"
  by (simp add: dry_run_send_email_def split: option.splits prod.splits sum.splits)

lemma dry_run_send_email_snd:
  "snd (dry_run_send_email env a s b h l c k t w) =
     (case log_wanted l c k of
        None \<Rightarrow> w
      | Some (c', k') \<Rightarrow>
          (let row = \<lparr>log_campaign_id = c', log_contact_id = k', log_template_id = t,
                      log_subject = s, log_body = take 500 b, log_status = SENT,
                      sent_at = Some (clock w), error_message = None,
                      log_created_at = Suc (clock w)\<rparr>;
               w2 = w\<lparr>clock := Suc (Suc (clock w))\<rparr>
           in case insert_log_fails env w2 row of
                Some m \<Rightarrow> w2
              | None \<Rightarrow> w2\<lparr>email_logs := email_logs w @ [row]\<rparr>))"
  by (simp add: dry_run_send_email_def insert_log_def utcnow_def Let_def
           split: option.splits prod.splits)

lemma dry_run_send_email_same_store:
  "dry_run_send_email env a s b h l c k t w = (r, w') \<Longrightarrow> same_store w w'"
  using dry_run_send_email_snd [of env a s b h l c k t w]
  by (auto simp: same_store_def Let_def split: option.splits)

lemma dry_run_send_email_trace:
  "smtp_trace (snd (dry_run_send_email env a s b h l c k t w)) = smtp_trace w"
  by (simp add: dry_run_send_email_snd Let_def split: option.splits)

lemma try_recipient_same_store:
  "try_recipient env dry_run campaign_id camp tmpl contact_id w = (r, w') \<Longrightarrow> same_store w w'"
  unfolding try_recipient_def
  by (auto simp: same_store_refl split: sum.splits option.splits prod.splits if_splits
           dest: send_email_same_store dry_run_send_email_same_store)

lemma process_contact_step:
  "process_contact env dry_run campaign_id camp tmpl contact_id (w, sent, failed) =
     (w', sent', failed') \<Longrightarrow>
   same_store w w' \<and> sent' + failed' = sent + failed + 1 \<and> sent \<le> sent' \<and> failed \<le> failed'"
  unfolding process_contact_def
  by (auto split: prod.splits sum.splits attempt.splits if_splits
           dest: try_recipient_same_store)

lemma send_loop_total:
  "send_loop env dry_run campaign_id camp tmpl refs (w, sent, failed) = (w', sent', failed') \<Longrightarrow>
   same_store w w' \<and> sent' + failed' = sent + failed + int (length refs)"
proof (induction refs arbitrary: w sent failed)
  case Nil
  then show ?case by (simp add: same_store_refl)
next
  case (Cons r refs)
  obtain w1 s1 f1 where
    p: "process_contact env dry_run campaign_id camp tmpl r (w, sent, failed) = (w1, s1, f1)"
    by (metis prod_cases3)
  from Cons.prems p
  have "send_loop env dry_run campaign_id camp tmpl refs (w1, s1, f1) = (w', sent', failed')"
    by simp
  from Cons.IH [OF this] process_contact_step [OF p] show ?case
    by (auto intro: same_store_trans)
qed


lemma ObjectId_examples:
  "ObjectId id_campaign = Inr id_campaign" "ObjectId id_template = Inr id_template"
  "ObjectId id_ana = Inr id_ana" "ObjectId id_deleted = Inr id_deleted"
  "ObjectId id_bob = Inr id_bob"
  by (simp_all add: ObjectId_def id_campaign_def id_template_def id_ana_def id_deleted_def
        id_bob_def is_hex_digit_def hex_lower_def)

lemma ids_distinct:
  "id_ana \<noteq> id_deleted" "id_ana \<noteq> id_bob" "id_deleted \<noteq> id_bob"
  "id_deleted \<noteq> id_ana" "id_bob \<noteq> id_ana" "id_bob \<noteq> id_deleted"
  by (simp_all add: id_ana_def id_deleted_def id_bob_def)

lemma ids_nonempty:
  "id_campaign \<noteq> []" "id_template \<noteq> []" "id_ana \<noteq> []" "id_deleted \<noteq> []"
  "id_bob \<noteq> []"
  by (simp_all add: id_campaign_def id_template_def id_ana_def id_deleted_def id_bob_def)

lemma scenario_run:
  "campaigns
     (snd (send_campaign_emails example_env id_campaign False
            (example_world (example_campaign IN_PROGRESS 0 0) (example_template False))))
     id_campaign =
   Some ((example_campaign IN_PROGRESS 0 0)
           \<lparr>status := COMPLETED, sent_count := 2, failed_count := 1,
            completed_at := Some 14, updated_at := 15\<rparr>)"
  by (simp add: send_campaign_emails_def run_campaign_def ObjectId_examples ids_distinct
        example_world_def example_campaign_def example_template_def example_contact_def
        example_env_def process_contact_def try_recipient_def send_email_def
        send_email_try_def smtp_session_def smtp_call_def log_wanted_def log_email_def
        insert_log_def utcnow_def update_one_campaign_def
        AsyncEmailSender_def render_template_def ids_nonempty)

lemma resolve_scenario:
  "length (resolve (example_world (example_campaign IN_PROGRESS 0 0) (example_template False))
             [id_ana, id_deleted, id_bob]) = 2"
  by (simp add: resolve_def find_contact_def List.map_filter_def ObjectId_examples
        example_world_def ids_distinct)

lemma smtp_session_env:
  "smtp_session (env\<lparr>insert_log_fails := f\<rparr>) self msg w = smtp_session env self msg w"
  by (simp add: smtp_session_def cong: prod.case_cong sum.case_cong if_cong)

lemma send_email_logs_insert_fails:
  assumes "\<forall>w' r. insert_log_fails env w' r \<noteq> None"
  shows "email_logs (snd (send_email env self a s b h l c k t w)) = email_logs w"
proof -
  have le: "\<And>c k t s b st err w r w'. log_email env c k t s b st err w = (r, w') \<Longrightarrow>
              email_logs w' = email_logs w"
  proof -
    fix c k t s b st err w r w'
    assume "log_email env c k t s b st err w = (r, w')"
    then have e: "w' = snd (log_email env c k t s b st err w)" by simp
    from assms have n: "\<And>w' r. (insert_log_fails env w' r = None) = False" by simp
    show "email_logs w' = email_logs w"
      by (simp add: e n log_email_snd Let_def split: option.splits)
  qed
  show ?thesis
    unfolding send_email_def send_email_try_def
    by (auto split: prod.splits sum.splits option.splits
             dest!: le smtp_session_logs)
qed

lemma dry_run_logs_insert_fails:
  assumes "\<forall>w' r. insert_log_fails env w' r \<noteq> None"
  shows "email_logs (snd (dry_run_send_email env a s b h l c k t w)) = email_logs w"
proof -
  from assms have n: "\<And>w' r. (insert_log_fails env w' r = None) = False" by simp
  show ?thesis
    by (simp add: n dry_run_send_email_snd Let_def split: option.splits)
qed

lemma send_email_logs_success:
  assumes "fst (smtp_session env self
                  \<lparr>msg_subject = s, msg_from = from_email self, msg_to = a, msg_body = b,
                   msg_html = h\<rparr> w) = Inr ()"
    and "\<forall>w' r. insert_log_fails env w' r = None"
    and "c \<noteq> []" and "k \<noteq> []"
  shows "email_logs (snd (send_email env self a s b h True (Some c) (Some k) t w)) =
           email_logs w @
           [\<lparr>log_campaign_id = c, log_contact_id = k, log_template_id = t, log_subject = s,
             log_body = b, log_status = SENT, sent_at = Some (clock w),
             error_message = None, log_created_at = Suc (clock w)\<rparr>]"
proof -
  define msg where "msg = \<lparr>msg_subject = s, msg_from = from_email self, msg_to = a,
                            msg_body = b, msg_html = h\<rparr>"
  obtain r w1 where ss: "smtp_session env self msg w = (r, w1)"
    by (metis prod.exhaust)
  with assms(1) have r: "r = Inr ()" by (simp add: msg_def)
  from smtp_session_frame [of env self msg w] ss
  obtain tr where w1: "w1 = w\<lparr>smtp_trace := smtp_trace w @ tr\<rparr>" by auto
  obtain r2 w2 where le: "log_email env c k t s b SENT None w1 = (r2, w2)"
    by (metis prod.exhaust)
  then have w2: "w2 = snd (log_email env c k t s b SENT None w1)" by simp
  from le log_email_fst [of env c k t s b SENT None w1] have r2: "r2 = Inr ()" by simp
  have "snd (send_email env self a s b h True (Some c) (Some k) t w) = w2"
    using ss r le r2 assms(3,4)
    by (simp add: send_email_def send_email_try_def log_wanted_def msg_def [symmetric])
  with w2 w1 assms(2) show ?thesis
    by (simp add: log_email_snd Let_def)
qed

lemma dry_run_logs_success:
  assumes "\<forall>w' r. insert_log_fails env w' r = None" and "c \<noteq> []" and "k \<noteq> []"
  shows "email_logs (snd (dry_run_send_email env a s b h True (Some c) (Some k) t w)) =
           email_logs w @
           [\<lparr>log_campaign_id = c, log_contact_id = k, log_template_id = t, log_subject = s,
             log_body = take 500 b, log_status = SENT, sent_at = Some (clock w),
             error_message = None, log_created_at = Suc (clock w)\<rparr>]"
  using assms by (simp add: dry_run_send_email_snd log_wanted_def Let_def)

lemma smtp_session_Inl:
  "fst (smtp_session env self msg w) = Inl e \<Longrightarrow> \<exists>m. e = SMTPException m"
  unfolding smtp_session_def smtp_call_def
  by (auto split: option.splits if_splits)

lemma smtp_session_example:
  "fst (smtp_session example_env self msg w) = Inr ()"
  by (simp add: smtp_session_def smtp_call_def example_env_def)

lemma smtp_session_login_refused:
  "fst (smtp_session (example_env\<lparr>smtp_login := \<lambda>w u p. Some m\<rparr>) self msg w) =
     Inl (SMTPException m)"
  by (simp add: smtp_session_def smtp_call_def example_env_def)

text \<open>Every status other than draft and paused, scheduled too, is rejected.\<close>

lemma send_campaign_not_sendable:
  assumes "ObjectId campaign_id = Inr cid" and "campaigns w cid = Some c"
    and "status c \<noteq> DRAFT" and "status c \<noteq> PAUSED"
  shows "send_campaign campaign_id dry_run w =
           (Inl (HTTPException 400
                  (''Cannot send campaign with status: '' @ CampaignStatus_value (status c))),
            w)"
  using assms by (simp add: send_campaign_def)

section \<open>The resolver and the tally\<close>

lemma find_contact_same_store: "same_store w w' \<Longrightarrow> find_contact w' r = find_contact w r"
  by (simp add: find_contact_def same_store_def split: sum.splits)

lemma resolve_same_store: "same_store w w' \<Longrightarrow> resolve w' refs = resolve w refs"
  by (simp add: resolve_def List.map_filter_def find_contact_same_store)

lemma resolve_Cons:
  "resolve w (r # refs) =
     (case find_contact w r of None \<Rightarrow> resolve w refs | Some c \<Rightarrow> c # resolve w refs)"
  by (simp add: resolve_def List.map_filter_def split: option.splits)

lemma process_contact_sent:
  "process_contact env dry_run campaign_id camp tmpl r (w, sent, failed) = (w', sent', failed') \<Longrightarrow>
   sent' \<le> sent + 1 \<and> (find_contact w r = None \<longrightarrow> sent' = sent)"
  unfolding process_contact_def try_recipient_def find_contact_def
  by (auto split: prod.splits sum.splits attempt.splits if_splits option.splits)

lemma send_loop_sent:
  "send_loop env dry_run campaign_id camp tmpl refs (w, sent, failed) = (w', sent', failed') \<Longrightarrow>
   sent' \<le> sent + int (length (resolve w refs))"
proof (induction refs arbitrary: w sent failed)
  case Nil
  then show ?case by simp
next
  case (Cons r refs)
  obtain w1 s1 f1 where
    p: "process_contact env dry_run campaign_id camp tmpl r (w, sent, failed) = (w1, s1, f1)"
    by (metis prod_cases3)
  from process_contact_step [OF p] have st: "same_store w w1" by simp
  from Cons.prems p
  have "send_loop env dry_run campaign_id camp tmpl refs (w1, s1, f1) = (w', sent', failed')"
    by simp
  from Cons.IH [OF this] have "sent' \<le> s1 + int (length (resolve w refs))"
    by (simp add: resolve_same_store [OF st])
  with process_contact_sent [OF p] show ?case
    by (auto simp: resolve_Cons split: option.splits)
qed



section \<open>The claims\<close>

text \<open>
  C1, as the code has it. When the campaign and its template are found, the run ends with
  one update that writes the status completed and counters whose sum is the number of
  contact references of the campaign: every reference counts once, a reference to a
  missing contact as failed. The sent counter is at most the number of contacts the
  resolver yields.
\<close>

theorem campaign_run_counts_every_reference:
  assumes "ObjectId campaign_id = Inr cid" and "campaigns w cid = Some camp"
    and "ObjectId (template_id camp) = Inr tid" and "templates w tid = Some tmpl"
  shows "\<exists>w' c'. send_campaign_emails env campaign_id dry_run w = (Inr (), w')
           \<and> campaigns w' cid = Some c' \<and> status c' = COMPLETED
           \<and> sent_count c' + failed_count c' = int (length (contact_ids camp))
           \<and> sent_count c' \<le> int (length (resolve w (contact_ids camp)))"
proof -
  obtain w1 sent failed where
    l: "send_loop env dry_run campaign_id camp tmpl (contact_ids camp) (w, 0, 0) =
          (w1, sent, failed)"
    by (metis prod_cases3)
  from send_loop_total [OF l]
  have st: "same_store w w1" and t: "sent + failed = int (length (contact_ids camp))"
    by simp_all
  from send_loop_sent [OF l] have b: "sent \<le> int (length (resolve w (contact_ids camp)))"
    by simp
  from st assms(2) have c1: "campaigns w1 cid = Some camp"
    by (simp add: same_store_def)
  from assms l c1 t b show ?thesis
    by (simp add: send_campaign_emails_def run_campaign_def utcnow_def
          update_one_campaign_def)
qed

theorem campaign_run_counts_every_reference_witness:
  "\<exists>w' c'. send_campaign_emails example_env id_campaign True
              (example_world (example_campaign IN_PROGRESS 0 0) (example_template False)) =
            (Inr (), w')
         \<and> campaigns w' id_campaign = Some c' \<and> status c' = COMPLETED
         \<and> sent_count c' + failed_count c' = 3
         \<and> sent_count c' \<le> 2"
  using campaign_run_counts_every_reference [of id_campaign id_campaign
      "example_world (example_campaign IN_PROGRESS 0 0) (example_template False)"
      "example_campaign IN_PROGRESS 0 0" id_template "example_template False"
      example_env True]
    resolve_scenario
  by (simp add: ObjectId_examples example_world_def example_campaign_def)

text \<open>
  The claim as the specification states it fails on its own scenario: of three references
  the second points to a deleted contact, the resolver yields two contacts, and the run
  ends with 2 sent and 1 failed, which add up to three.
\<close>

theorem campaign_run_resolved_counterexample:
  "campaign_counters
     (snd (send_campaign_emails example_env id_campaign False
            (example_world (example_campaign IN_PROGRESS 0 0) (example_template False))))
     id_campaign = Some (COMPLETED, 3, 2, 1)
   \<and> length (resolve (example_world (example_campaign IN_PROGRESS 0 0) (example_template False))
               (contact_ids (example_campaign IN_PROGRESS 0 0))) = 2
   \<and> \<not> counters_match_resolved
         (example_world (example_campaign IN_PROGRESS 0 0) (example_template False))
         (snd (send_campaign_emails example_env id_campaign False
                (example_world (example_campaign IN_PROGRESS 0 0) (example_template False))))
         id_campaign"
  using resolve_scenario
  apply (simp add: scenario_run campaign_counters_def counters_match_resolved_def)
  apply (simp add: example_campaign_def)
  done

text \<open>
  C2. Every template string reads as a sequence of pieces of text, escapes, lone dollars
  and placeholders. For every template, every such reading of it and every mapping,
  \<open>render_template\<close> returns without raising, and what it returns is the template with
  every placeholder whose name is a key of the mapping replaced by the value of the key,
  every other placeholder left as it is written, and the text between them kept. The
  values put in are not read again for placeholders, so each placeholder is replaced once.
\<close>

theorem render_template_substitutes:
  "(\<exists>segs'. well_formed segs' \<and> unparse segs' = T
       \<and> render_template T V = Inr (concat (map (rendered V) segs')))
   \<and> (well_formed segs \<and> unparse segs = T \<longrightarrow>
        render_template T V = Inr (concat (map (rendered V) segs)))"
proof -
  have r: "\<And>ss. well_formed ss \<Longrightarrow> unparse ss = T \<Longrightarrow>
             render_template T V = Inr (concat (map (rendered V) ss))"
    using sub_unparse by (auto simp: render_template_def safe_substitute_def)
  from segmentation_exists [of T] obtain ss where "well_formed ss" and "unparse ss = T"
    by blast
  with r [of ss] r [of segs] show ?thesis by blast
qed

theorem render_template_substitutes_witness:
  "render_template ''Hi $first_name, from $company'' [(''first_name'', PyStr ''Ana'')] =
     Inr ''Hi Ana, from $company''"
  using render_template_substitutes
    [where segs = "[Text ''Hi '', Var ''first_name'', Text '', from '', Var ''company'']"
       and T = "''Hi $first_name, from $company''"
       and V = "[(''first_name'', PyStr ''Ana'')]"]
  by (simp add: unparse_def is_identifier_def starts_with_def is_id_start_def is_id_char_def
        dict_get_def)

text \<open>
  C3. A send request for a campaign whose status is none of draft, paused and scheduled is
  answered with an error that names the status, and the state is the one before the
  request: the campaign record with its status, counters and timestamps is untouched and
  no run is scheduled.
\<close>

theorem send_campaign_rejected:
  assumes "ObjectId campaign_id = Inr cid" and "campaigns w cid = Some c"
    and "status c \<notin> {DRAFT, PAUSED, SCHEDULED}"
  shows "send_campaign campaign_id dry_run w =
           (Inl (HTTPException 400
                  (''Cannot send campaign with status: '' @ CampaignStatus_value (status c))),
            w)"
  using assms by (simp add: send_campaign_def)

theorem send_campaign_rejected_witness:
  "send_campaign id_campaign False
     (example_world (example_campaign COMPLETED 2 1) (example_template False)) =
   (Inl (HTTPException 400 ''Cannot send campaign with status: completed''),
    example_world (example_campaign COMPLETED 2 1) (example_template False))"
  using send_campaign_rejected [of id_campaign id_campaign
      "example_world (example_campaign COMPLETED 2 1) (example_template False)"
      "example_campaign COMPLETED 2 1" False]
  by (simp add: ObjectId_examples example_world_def example_campaign_def)

text \<open>
  C4, as the code has it. A send request for a campaign in status draft or paused is
  accepted: it schedules the run, sets the status to in progress, records the start
  timestamp and the update timestamp, and changes nothing else. The stored sent and failed
  counters keep their values; they are replaced only by the final update of the run.
\<close>

theorem send_campaign_started:
  assumes "ObjectId campaign_id = Inr cid" and "campaigns w cid = Some c"
    and "status c \<in> {DRAFT, PAUSED}"
  shows "send_campaign campaign_id dry_run w =
           (Inr (\<lparr>message = ''Campaign started'', resp_campaign_id = campaign_id,
                  resp_dry_run = dry_run\<rparr>, SendCampaignEmails campaign_id dry_run),
            w\<lparr>clock := clock w + 2,
              campaigns := (campaigns w)(cid \<mapsto>
                c\<lparr>status := IN_PROGRESS, started_at := Some (clock w),
                  updated_at := clock w + 1\<rparr>)\<rparr>)"
  using assms by (auto simp: send_campaign_def utcnow_def update_one_campaign_def)

theorem send_campaign_started_witness:
  "campaign_counters
     (snd (send_campaign id_campaign True
             (example_world (example_campaign DRAFT 0 0) (example_template False))))
     id_campaign = Some (IN_PROGRESS, 3, 0, 0)"
  using send_campaign_started [of id_campaign id_campaign
      "example_world (example_campaign DRAFT 0 0) (example_template False)"
      "example_campaign DRAFT 0 0" True]
  by (simp add: ObjectId_examples example_world_def example_campaign_def
        campaign_counters_def)

text \<open>
  The claim as the specification states it fails: a paused campaign that holds the counters
  2 and 1 holds them still after the send request.
\<close>

theorem send_campaign_counters_counterexample:
  "campaign_counters
     (snd (send_campaign id_campaign False
             (example_world (example_campaign PAUSED 2 1) (example_template False))))
     id_campaign = Some (IN_PROGRESS, 3, 2, 1)"
  by (simp add: send_campaign_def utcnow_def update_one_campaign_def ObjectId_examples
        example_world_def example_campaign_def campaign_counters_def)

text \<open>
  C5, as the code has it. The dry-run transport returns \<open>(True, None)\<close> and makes no call
  on the network. Where a real send that succeeds writes a log row, the dry run writes the
  same row with status sent, but with the body cut to its first 500 characters; the two
  rows are equal when the body has at most 500 characters.
\<close>

theorem dry_run_send_observable:
  "fst (dry_run_send_email env a s b h l c k t w) = Inr (True, None)
   \<and> smtp_trace (snd (dry_run_send_email env a s b h l c k t w)) = smtp_trace w
   \<and> ((\<forall>w' r. insert_log_fails env w' r = None) \<and> cid \<noteq> [] \<and> kid \<noteq> []
        \<and> fst (smtp_session env self
                 \<lparr>msg_subject = s, msg_from = from_email self, msg_to = a, msg_body = b,
                  msg_html = h\<rparr> w) = Inr () \<longrightarrow>
        (\<exists>row. log_status row = SENT \<and> log_body row = b
           \<and> email_logs (snd (send_email env self a s b h True (Some cid) (Some kid) t w)) =
               email_logs w @ [row]
           \<and> email_logs (snd (dry_run_send_email env a s b h True (Some cid) (Some kid) t w)) =
               email_logs w @ [row\<lparr>log_body := take 500 b\<rparr>])
        \<and> (length b \<le> 500 \<longrightarrow>
             email_logs (snd (dry_run_send_email env a s b h True (Some cid) (Some kid) t w)) =
             email_logs (snd (send_email env self a s b h True (Some cid) (Some kid) t w))))"
  by (simp add: dry_run_send_email_fst dry_run_send_email_trace send_email_logs_success
        dry_run_logs_success)

theorem dry_run_send_observable_witness:
  "email_logs
     (snd (dry_run_send_email example_env ''ana@example.com'' ''Hello'' ''Hi Ana'' False True
             (Some id_campaign) (Some id_ana) (Some id_template)
             (example_world (example_campaign IN_PROGRESS 0 0) (example_template False)))) =
   email_logs
     (snd (send_email example_env (AsyncEmailSender (settings example_env))
             ''ana@example.com'' ''Hello'' ''Hi Ana'' False True
             (Some id_campaign) (Some id_ana) (Some id_template)
             (example_world (example_campaign IN_PROGRESS 0 0) (example_template False))))"
  using dry_run_send_observable
    [where env = example_env and a = "''ana@example.com''" and s = "''Hello''"
      and b = "''Hi Ana''" and h = False and l = True and c = "Some id_campaign"
      and k = "Some id_ana" and t = "Some id_template"
      and w = "example_world (example_campaign IN_PROGRESS 0 0) (example_template False)"
      and cid = id_campaign and kid = id_ana
      and self = "AsyncEmailSender (settings example_env)"]
    smtp_session_example
  by (simp add: ids_nonempty example_env_def)

text \<open>
  The claim as the specification states it fails for a body of 501 characters: the row of
  the dry run is not the row of the real send.
\<close>

theorem dry_run_body_counterexample:
  "email_logs
     (snd (dry_run_send_email example_env ''ana@example.com'' ''Hello'' long_body False True
             (Some id_campaign) (Some id_ana) (Some id_template)
             (example_world (example_campaign IN_PROGRESS 0 0) (example_template False)))) \<noteq>
   email_logs
     (snd (send_email example_env (AsyncEmailSender (settings example_env))
             ''ana@example.com'' ''Hello'' long_body False True
             (Some id_campaign) (Some id_ana) (Some id_template)
             (example_world (example_campaign IN_PROGRESS 0 0) (example_template False))))"
proof -
  have i: "\<forall>w' r. insert_log_fails example_env w' r = None"
    by (simp add: example_env_def)
  have "take 500 long_body \<noteq> long_body"
    by (simp add: long_body_def)
  then show ?thesis
    by (simp add: dry_run_logs_success [OF i] send_email_logs_success [OF _ i]
          smtp_session_example ids_nonempty)
qed

text \<open>
  C6. A reference that points to no contact adds one to the failed counter and leaves the
  state as it is, so no log row is written and nothing is sent; the loop goes on with the
  references that follow.
\<close>

theorem missing_contact_counted_failed:
  assumes "ObjectId contact_id = Inr oid" and "contacts w oid = None"
  shows "process_contact env dry_run campaign_id camp tmpl contact_id (w, sent, failed) =
           (w, sent, failed + 1)
         \<and> send_loop env dry_run campaign_id camp tmpl (contact_id # rest) (w, sent, failed) =
             send_loop env dry_run campaign_id camp tmpl rest (w, sent, failed + 1)"
  using assms by (simp add: process_contact_def try_recipient_def)

theorem missing_contact_counted_failed_witness:
  "process_contact example_env False id_campaign (example_campaign IN_PROGRESS 0 0)
     (example_template False) id_deleted
     (example_world (example_campaign IN_PROGRESS 0 0) (example_template False), 1, 0) =
   (example_world (example_campaign IN_PROGRESS 0 0) (example_template False), 1, 1)
   \<and> send_loop example_env False id_campaign (example_campaign IN_PROGRESS 0 0)
       (example_template False) [id_deleted, id_bob]
       (example_world (example_campaign IN_PROGRESS 0 0) (example_template False), 1, 0) =
     send_loop example_env False id_campaign (example_campaign IN_PROGRESS 0 0)
       (example_template False) [id_bob]
       (example_world (example_campaign IN_PROGRESS 0 0) (example_template False), 1, 1)"
  using missing_contact_counted_failed [of id_deleted id_deleted
      "example_world (example_campaign IN_PROGRESS 0 0) (example_template False)"
      example_env False id_campaign "example_campaign IN_PROGRESS 0 0"
      "example_template False" 1 0 "[id_bob]"]
  by (simp add: ObjectId_examples example_world_def ids_distinct)

text \<open>
  C7. When the template asks for personalisation and the chat call of the text generator
  raises for a recipient, the pass adds one to the failed counter and leaves the state as
  it is, so nothing is sent and no log row is written; the loop goes on with the references
  that follow.
\<close>

theorem generation_failure_counted_failed:
  assumes "use_llm tmpl" and "ObjectId contact_id = Inr oid" and "contacts w oid = Some c"
    and "email c = Some addr"
    and "ollama_chat env w default_system_prompt
           (user_prompt (content tmpl) (recipient_data addr c)) = Inl m"
  shows "process_contact env dry_run campaign_id camp tmpl contact_id (w, sent, failed) =
           (w, sent, failed + 1)
         \<and> send_loop env dry_run campaign_id camp tmpl (contact_id # rest) (w, sent, failed) =
             send_loop env dry_run campaign_id camp tmpl rest (w, sent, failed + 1)"
  using assms by (simp add: process_contact_def try_recipient_def generate_email_def)

theorem generation_failure_counted_failed_witness:
  "process_contact (example_env\<lparr>ollama_chat := \<lambda>w s u. Inl ''connection refused''\<rparr>) False
     id_campaign (example_campaign IN_PROGRESS 0 0) (example_template True) id_ana
     (example_world (example_campaign IN_PROGRESS 0 0) (example_template True), 0, 0) =
   (example_world (example_campaign IN_PROGRESS 0 0) (example_template True), 0, 1)
   \<and> send_loop (example_env\<lparr>ollama_chat := \<lambda>w s u. Inl ''connection refused''\<rparr>) False
       id_campaign (example_campaign IN_PROGRESS 0 0) (example_template True) [id_ana]
       (example_world (example_campaign IN_PROGRESS 0 0) (example_template True), 0, 0) =
     (example_world (example_campaign IN_PROGRESS 0 0) (example_template True), 0, 1)"
  using generation_failure_counted_failed [of "example_template True" id_ana id_ana
      "example_world (example_campaign IN_PROGRESS 0 0) (example_template True)"
      "example_contact ''ana@example.com'' ''Ana''" "''ana@example.com''"
      "example_env\<lparr>ollama_chat := \<lambda>w s u. Inl ''connection refused''\<rparr>"
      "''connection refused''" False id_campaign "example_campaign IN_PROGRESS 0 0" 0 0 "[]"]
  by (simp add: ObjectId_examples example_world_def ids_distinct example_template_def
        example_contact_def example_env_def)

text \<open>
  C8 fails on the code. \<open>create_template\<close> and an update that sets the content store the
  placeholders derived from the body, whatever list the request carries (lemmas
  \<open>create_template_placeholders\<close> and \<open>update_template_content_placeholders\<close>). An
  update that sets the placeholder list and not the content stores the list of the
  request: here the body gives \<open>first_name\<close> and \<open>company\<close>, and the stored list is
  \<open>bogus\<close>.
\<close>

theorem update_template_stores_given_placeholders:
  "stored_and_derived
     (snd (update_template id_template placeholders_only
             (example_world (example_campaign DRAFT 0 0) (example_template False))))
     id_template = Some ([''bogus''], [''first_name'', ''company''])"
  by (simp add: update_template_def set_template_fields_def stored_and_derived_def
        utcnow_def Let_def ObjectId_examples example_world_def example_template_def
        placeholders_only_def extract_example)

text \<open>
  C9. \<open>send_email\<close> of the real transport always returns a pair and never raises: when a
  call on the SMTP connection (connect, STARTTLS, login, transmission) raises, the pair is
  \<open>(False, message)\<close> with the text of the exception, otherwise \<open>(True, None)\<close>.
\<close>

theorem send_email_reports_failure:
  "(\<exists>ok err. fst (send_email env self a s b h l c k t w) = Inr (ok, err))
   \<and> (\<forall>e. fst (smtp_session env self
                  \<lparr>msg_subject = s, msg_from = from_email self, msg_to = a, msg_body = b,
                   msg_html = h\<rparr> w) = Inl e \<longrightarrow>
          fst (send_email env self a s b h l c k t w) = Inr (False, Some (exn_str e)))
   \<and> (fst (smtp_session env self
              \<lparr>msg_subject = s, msg_from = from_email self, msg_to = a, msg_body = b,
               msg_html = h\<rparr> w) = Inr () \<longrightarrow>
          fst (send_email env self a s b h l c k t w) = Inr (True, None))"
  by (auto simp: send_email_fst split: sum.splits)

theorem send_email_reports_failure_witness:
  "fst (send_email (example_env\<lparr>smtp_login := \<lambda>w u p. Some ''535 Authentication failed''\<rparr>)
          (AsyncEmailSender (settings example_env)) ''ana@example.com'' ''Hello'' ''Hi Ana''
          False True (Some id_campaign) (Some id_ana) (Some id_template)
          (example_world (example_campaign IN_PROGRESS 0 0) (example_template False))) =
     Inr (False, Some ''535 Authentication failed'')"
  using send_email_reports_failure
    [of "example_env\<lparr>smtp_login := \<lambda>w u p. Some ''535 Authentication failed''\<rparr>"
      "AsyncEmailSender (settings example_env)" "''ana@example.com''" "''Hello''" "''Hi Ana''"
      False True "Some id_campaign" "Some id_ana" "Some id_template"
      "example_world (example_campaign IN_PROGRESS 0 0) (example_template False)"]
  by (simp add: smtp_session_login_refused)

text \<open>
  C10. The pair that \<open>send_email\<close> returns, of the real and of the dry-run transport, does
  not depend on what the insert of the log row does. When the insert raises, no row is
  written, the dry run still returns \<open>(True, None)\<close>, and so does the real transport when
  the message was transmitted.
\<close>

theorem log_insert_failure_swallowed:
  "fst (send_email (env\<lparr>insert_log_fails := f\<rparr>) self a s b h l c k t w) =
     fst (send_email env self a s b h l c k t w)
   \<and> fst (dry_run_send_email (env\<lparr>insert_log_fails := f\<rparr>) a s b h l c k t w) =
       fst (dry_run_send_email env a s b h l c k t w)
   \<and> ((\<forall>w' r. insert_log_fails env w' r \<noteq> None) \<longrightarrow>
        email_logs (snd (send_email env self a s b h l c k t w)) = email_logs w
        \<and> email_logs (snd (dry_run_send_email env a s b h l c k t w)) = email_logs w
        \<and> fst (dry_run_send_email env a s b h l c k t w) = Inr (True, None)
        \<and> (fst (smtp_session env self
                  \<lparr>msg_subject = s, msg_from = from_email self, msg_to = a, msg_body = b,
                   msg_html = h\<rparr> w) = Inr () \<longrightarrow>
             fst (send_email env self a s b h l c k t w) = Inr (True, None)))"
  by (simp add: send_email_fst smtp_session_env dry_run_send_email_fst
        send_email_logs_insert_fails dry_run_logs_insert_fails)

theorem log_insert_failure_swallowed_witness:
  "fst (send_email (example_env\<lparr>insert_log_fails := \<lambda>w r. Some ''connection lost''\<rparr>)
          (AsyncEmailSender (settings example_env)) ''ana@example.com'' ''Hello'' ''Hi Ana''
          False True (Some id_campaign) (Some id_ana) (Some id_template)
          (example_world (example_campaign IN_PROGRESS 0 0) (example_template False))) =
     Inr (True, None)
   \<and> email_logs
       (snd (send_email (example_env\<lparr>insert_log_fails := \<lambda>w r. Some ''connection lost''\<rparr>)
          (AsyncEmailSender (settings example_env)) ''ana@example.com'' ''Hello'' ''Hi Ana''
          False True (Some id_campaign) (Some id_ana) (Some id_template)
          (example_world (example_campaign IN_PROGRESS 0 0) (example_template False)))) = []"
  using log_insert_failure_swallowed
    [where env = "example_env\<lparr>insert_log_fails := \<lambda>w r. Some ''connection lost''\<rparr>"
      and f = "\<lambda>w r. Some ''connection lost''"
      and self = "AsyncEmailSender (settings example_env)" and a = "''ana@example.com''"
      and s = "''Hello''" and b = "''Hi Ana''" and h = False and l = True
      and c = "Some id_campaign" and k = "Some id_ana" and t = "Some id_template"
      and w = "example_world (example_campaign IN_PROGRESS 0 0) (example_template False)"]
    smtp_session_example
  by (simp add: smtp_session_env example_world_def)

end
